theory Spec2Isabelle
  imports Main "HOL-Library.Multiset"
begin

section \<open>The reconciler's act stage (pkg/controller/proxyvalidatingtype/act.go)\<close>

text \<open>
  The custom resource as far as \<open>act.go\<close> reads and writes it: the finalizer list of its
  object metadata, its generation and the observed generation of its status. The two
  counters are only compared and copied, never computed with, so they are plain integers.
\<close>

record customResource =
  Finalizers :: "string list"
  Generation :: int
  ObservedGeneration :: int

text \<open>
  The analyzed state handed to \<open>act\<close>. Its declaration lives in the analyze stage; the
  fields are the ones \<open>act.go\<close> uses. The generated cluster webhook object and the
  rule-set aggregate are opaque here (type parameters \<open>'w\<close> and \<open>'d\<close>). The Go struct
  holds a pointer to the custom resource and the functions mutate it in place; the model
  returns the updated state.
\<close>

record ('w, 'd) analyzedState =
  customResource :: customResource
  webhook :: 'w
  newProxyTypeData :: 'd
  update :: bool
  create :: bool
  delete :: bool

text \<open>
  The cluster client. \<open>c.Create\<close>, \<open>c.Update\<close> and \<open>c.Status().Update\<close> each take an
  object, which is either the generated webhook configuration or the custom resource, and
  return an error or nil. A client is the function that answers each call; the calls made
  are logged in order in the world state, next to the package-level variable
  \<open>proxyTypeData\<close> that the dispatcher side reads. What the API server writes back into
  the object it was handed is not part of the model.
\<close>

datatype 'w object = WebhookObject 'w | ResourceObject customResource

datatype 'w call = Create "'w object" | Update "'w object" | StatusUpdate "'w object"

type_synonym error = string

type_synonym 'w client = "'w call \<Rightarrow> error option"

record ('w, 'd) world =
  calls :: "'w call list"
  proxyTypeData :: 'd

definition typeFinalizer :: string where
  "typeFinalizer = ''type.finalizer.gesher''"

primrec containsString :: "string list \<Rightarrow> string \<Rightarrow> bool" where
  "containsString [] s = False"
| "containsString (item # slice) s = (if item = s then True else containsString slice s)"

primrec removeString :: "string list \<Rightarrow> string \<Rightarrow> string list" where
  "removeString [] s = []"
| "removeString (item # slice) s =
     (if item = s then removeString slice s else item # removeString slice s)"

definition manageGeneration ::
  "('w, 'd) analyzedState \<Rightarrow> bool \<times> ('w, 'd) analyzedState" where
  "manageGeneration state =
     (if ObservedGeneration (customResource state) \<noteq> Generation (customResource state)
      then (True, state\<lparr>customResource := (customResource state)
                \<lparr>ObservedGeneration := Generation (customResource state)\<rparr>\<rparr>)
      else (False, state))"

definition manageFinalizer ::
  "('w, 'd) analyzedState \<Rightarrow> bool \<times> ('w, 'd) analyzedState" where
  "manageFinalizer state =
     (case delete state of
        False \<Rightarrow>
          if \<not> containsString (Finalizers (customResource state)) typeFinalizer
          then (True, state\<lparr>customResource := (customResource state)
                    \<lparr>Finalizers := Finalizers (customResource state) @ [typeFinalizer]\<rparr>\<rparr>)
          else (False, state)
      | True \<Rightarrow>
          if containsString (Finalizers (customResource state)) typeFinalizer
          then (True, state\<lparr>customResource := (customResource state)
                    \<lparr>Finalizers := removeString (Finalizers (customResource state)) typeFinalizer\<rparr>\<rparr>)
          else (False, state))"

text \<open>One client call: the call is logged and the client's answer returned.\<close>

definition do_call ::
  "'w client \<Rightarrow> 'w call \<Rightarrow> ('w, 'd) world \<Rightarrow> error option \<times> ('w, 'd) world" where
  "do_call c k w = (c k, w\<lparr>calls := calls w @ [k]\<rparr>)"

definition manageWebhookConfig ::
  "'w client \<Rightarrow> ('w, 'd) analyzedState \<Rightarrow> ('w, 'd) world \<Rightarrow> error option \<times> ('w, 'd) world" where
  "manageWebhookConfig c state w =
     (if create state
      then (case do_call c (Create (WebhookObject (webhook state))) w of
              (Some err, w') \<Rightarrow> (Some err, w')
            | (None, w') \<Rightarrow> (None, w'))
      else (case do_call c (Update (WebhookObject (webhook state))) w of
              (Some err, w') \<Rightarrow> (Some err, w')
            | (None, w') \<Rightarrow> (None, w')))"

text \<open>
  \<open>act\<close>: the webhook apply runs only when \<open>state.update\<close> is set (the other branch
  only logs); an error there returns at once. Then the finalizer and generation
  bookkeeping, at most one write of the custom resource, and last the assignment of the
  package-level aggregate.
\<close>

definition act ::
  "'w client \<Rightarrow> ('w, 'd) analyzedState \<Rightarrow> ('w, 'd) world
     \<Rightarrow> error option \<times> ('w, 'd) analyzedState \<times> ('w, 'd) world" where
  "act c state w =
     (case (if update state then manageWebhookConfig c state w else (None, w)) of
        (Some err, w0) \<Rightarrow> (Some err, state, w0)
      | (None, w0) \<Rightarrow>
          (let (ret, state1) = manageFinalizer state;
               fullChange = (ret \<or> False);
               (ret', state2) = manageGeneration state1;
               statusChange = (ret' \<or> False)
           in if fullChange
              then (case do_call c (Update (ResourceObject (customResource state2))) w0 of
                      (Some err, w1) \<Rightarrow> (Some err, state2, w1)
                    | (None, w1) \<Rightarrow>
                        (None, state2, w1\<lparr>proxyTypeData := newProxyTypeData state2\<rparr>))
              else if statusChange
              then (case do_call c (StatusUpdate (ResourceObject (customResource state2))) w0 of
                      (Some err, w1) \<Rightarrow> (Some err, state2, w1)
                    | (None, w1) \<Rightarrow>
                        (None, state2, w1\<lparr>proxyTypeData := newProxyTypeData state2\<rparr>))
              else (None, state2, w0\<lparr>proxyTypeData := newProxyTypeData state2\<rparr>)))"

text \<open>
  Vocabulary for the write log: a full-object update of the custom resource, a status-only
  update of it, any write of it, and the calls an invocation added to the log.
\<close>

fun is_full_update :: "'w call \<Rightarrow> bool" where
  "is_full_update (Update (ResourceObject r)) = True"
| "is_full_update k = False"

fun is_status_update :: "'w call \<Rightarrow> bool" where
  "is_status_update (StatusUpdate (ResourceObject r)) = True"
| "is_status_update k = False"

fun is_resource_write :: "'w call \<Rightarrow> bool" where
  "is_resource_write (Create (ResourceObject r)) = True"
| "is_resource_write (Update (ResourceObject r)) = True"
| "is_resource_write (StatusUpdate (ResourceObject r)) = True"
| "is_resource_write k = False"

definition new_calls :: "('w, 'd) world \<Rightarrow> ('w, 'd) world \<Rightarrow> 'w call list" where
  "new_calls w w' = drop (length (calls w)) (calls w')"

text \<open>The webhook apply that \<open>manageWebhookConfig\<close> issues for a state.\<close>

definition webhook_apply :: "('w, 'd) analyzedState \<Rightarrow> 'w call" where
  "webhook_apply state =
     (if create state then Create (WebhookObject (webhook state))
      else Update (WebhookObject (webhook state)))"

subsection \<open>Concrete analyzed states\<close>

text \<open>
  A resource seen for the first time (no finalizer, observed generation behind, webhook
  to be created), a resource whose spec changed (finalizer present, observed generation
  behind, webhook up to date), a settled resource, and a world with nothing written yet.
\<close>

definition ex_state_new :: "(unit, nat) analyzedState" where
  "ex_state_new =
     \<lparr>customResource = \<lparr>Finalizers = [], Generation = 2, ObservedGeneration = 1\<rparr>,
      webhook = (), newProxyTypeData = 1, update = True, create = True, delete = False\<rparr>"

definition ex_state_changed :: "(unit, nat) analyzedState" where
  "ex_state_changed =
     \<lparr>customResource = \<lparr>Finalizers = [''type.finalizer.gesher''], Generation = 2,
                         ObservedGeneration = 1\<rparr>,
      webhook = (), newProxyTypeData = 1, update = False, create = False, delete = False\<rparr>"

definition ex_state_settled :: "(unit, nat) analyzedState" where
  "ex_state_settled =
     \<lparr>customResource = \<lparr>Finalizers = [''type.finalizer.gesher''], Generation = 2,
                         ObservedGeneration = 2\<rparr>,
      webhook = (), newProxyTypeData = 1, update = False, create = False, delete = False\<rparr>"

definition ex_state_deleting :: "(unit, nat) analyzedState" where
  "ex_state_deleting =
     \<lparr>customResource = \<lparr>Finalizers = [''other'', ''type.finalizer.gesher''], Generation = 2,
                         ObservedGeneration = 2\<rparr>,
      webhook = (), newProxyTypeData = 0, update = True, create = False, delete = True\<rparr>"

definition ex_world :: "(unit, nat) world" where
  "ex_world = \<lparr>calls = [], proxyTypeData = 0\<rparr>"

definition ex_client_ok :: "unit client" where
  "ex_client_ok = (\<lambda>k. None)"

definition ex_client_conflict :: "unit client" where
  "ex_client_conflict =
     (\<lambda>k. case k of Create (WebhookObject w) \<Rightarrow> Some ''conflict'' | _ \<Rightarrow> None)"

section \<open>The admission dispatcher (package admission_proxy)\<close>

subsection \<open>Values\<close>

text \<open>
  The two ways \<open>strconv.Atoi\<close> fails.
\<close>

datatype NumError = ErrSyntax | ErrRange

text \<open>
  A Go panic ends the process. \<open>Panic\<close> carries the string a \<open>panic("...")\<close> was called
  with; \<open>PanicError\<close> is \<open>panic(fmt.Errorf(format, err))\<close> with the text of the format
  before its verb and the \<open>strconv\<close> error it wraps; \<open>NilDereference\<close> is the runtime
  panic of reading through a nil pointer.
\<close>

datatype panic = Panic string | PanicError string NumError | NilDereference

text \<open>
  \<open>type Webhook map[string]string\<close>. Reading a key that is absent from a Go map gives the
  empty string.
\<close>

type_synonym Webhook = "string \<rightharpoonup> string"

definition wget :: "Webhook \<Rightarrow> string \<Rightarrow> string" where
  "wget wh k = (case wh k of None \<Rightarrow> [] | Some v \<Rightarrow> v)"

definition serviceName :: string where "serviceName = ''service-name''"
definition namespace :: string where "namespace = ''namespace''"
definition port :: string where "port = ''port''"
definition path :: string where "path = ''path''"
definition caBundle :: string where "caBundle = ''ca-bundle''"

text \<open>
  \<open>admissionregistration/v1beta1.FailurePolicyType\<close> is a string type with the two
  constants \<open>Ignore\<close> and \<open>Fail\<close>.
\<close>

type_synonym FailurePolicyType = string

definition Fail :: FailurePolicyType where "Fail = ''Fail''"

text \<open>
  The part of \<open>admission/v1beta1\<close> that the dispatcher reads: an \<open>AdmissionReview\<close> holds a
  pointer to an \<open>AdmissionResponse\<close>, which holds \<open>Allowed\<close> and a pointer to a
  \<open>metav1.Status\<close> with the message. A nil pointer is \<open>None\<close>.
\<close>

record Status =
  Message :: string

record AdmissionResponse =
  Allowed :: bool
  Result :: "Status option"

record AdmissionReview =
  Response :: "AdmissionResponse option"

text \<open>
  \<open>http.Header\<close> is \<open>map[string][]string\<close>. It is kept as an association list, whose
  order is the order in which a \<open>range\<close> loop visits the keys; \<open>hget\<close> is the map lookup
  (nil, the empty list, for an absent key). An \<open>http.Request\<close> as far as the dispatcher
  builds and reads it. The body is the byte content of the \<open>*bytes.Reader\<close> handed to
  \<open>http.NewRequestWithContext\<close>.
\<close>

type_synonym Header = "(string \<times> string list) list"

definition hget :: "Header \<Rightarrow> string \<Rightarrow> string list" where
  "hget h k = (case map_of h k of None \<Rightarrow> [] | Some vs \<Rightarrow> vs)"

record Request =
  Method :: string
  URL :: string
  Header :: Header
  Body :: string

text \<open>
  The HTTP client as far as \<open>doWebhook\<close> configures it: the \<open>RootCAs\<close> pool of its TLS
  configuration. In \<open>crypto/tls\<close> a nil pool (\<open>None\<close>) means the host's root CA set; a
  pool that is not nil is the whole trust set.
\<close>

record 'c Client =
  RootCAs :: "'c list option"

text \<open>
  An \<open>http.Response\<close> as far as \<open>toFailure\<close> reads it: the body is nil (\<open>None\<close>), or
  reading it to the end fails with an error (\<open>Inl\<close>), or gives its bytes (\<open>Inr\<close>).
\<close>

record HttpResponse =
  RespBody :: "(error + string) option"

text \<open>
  What the dispatcher calls outside this package and the model does not compute:
  \<^item> \<open>ParseURL\<close>: whether \<open>http.NewRequestWithContext\<close> accepts the URL (it returns a
    nil request and an error otherwise);
  \<^item> \<open>AppendCertsFromPEM\<close>: the certificates \<open>x509\<close> parses out of PEM text;
  \<open>x509.NewCertPool()\<close> is the empty pool;
  \<^item> \<open>CanonicalMIMEHeaderKey\<close>: the key under which \<open>Header.Add\<close> files a value;
  \<^item> \<open>Do\<close>: the answer \<open>client.Do\<close> gives to the call of the goroutine with the given
    index: a response pointer and an error;
  \<^item> \<open>Unmarshal\<close>: \<open>json.Unmarshal\<close> into an \<open>AdmissionReview\<close>.
\<close>

record 'c library =
  ParseURL :: "string \<Rightarrow> bool"
  AppendCertsFromPEM :: "string \<Rightarrow> 'c list"
  CanonicalMIMEHeaderKey :: "string \<Rightarrow> string"
  Do :: "nat \<Rightarrow> 'c Client \<Rightarrow> Request \<Rightarrow> HttpResponse option \<times> error option"
  Unmarshal :: "string \<Rightarrow> error + AdmissionReview"

subsection \<open>The Webhook Caller\<close>

definition errToFailure :: "string \<Rightarrow> error \<Rightarrow> FailurePolicyType \<Rightarrow> error option" where
  "errToFailure name err failurePolicy =
     (if failurePolicy = Fail
      then Some (''proxied webhook '' @ name @ '' failed: '' @ err)
      else None)"

definition toFailure ::
  "'c library \<Rightarrow> string \<Rightarrow> HttpResponse option \<Rightarrow> error option \<Rightarrow> FailurePolicyType
     \<Rightarrow> panic + error option" where
  "toFailure lib name resp httpErr failurePolicy =
     (case httpErr of
        Some e \<Rightarrow> Inr (errToFailure name (''http error: '' @ e) failurePolicy)
      | None \<Rightarrow>
          (case resp of
             None \<Rightarrow> Inl NilDereference
           | Some rsp \<Rightarrow>
               (case RespBody rsp of
                  None \<Rightarrow> Inr (errToFailure name ''response body is nil'' failurePolicy)
                | Some (Inl err) \<Rightarrow>
                    Inr (errToFailure name (''ReadAll failed: '' @ err) failurePolicy)
                | Some (Inr data) \<Rightarrow>
                    (case Unmarshal lib data of
                       Inl err \<Rightarrow>
                         Inr (errToFailure name (''json unmarshall failed: '' @ err) failurePolicy)
                     | Inr responseAdmissionReview \<Rightarrow>
                         (case Response responseAdmissionReview of
                            None \<Rightarrow> Inl NilDereference
                          | Some response \<Rightarrow>
                              if \<not> Allowed response
                              then (case Result response of
                                      None \<Rightarrow> Inl NilDereference
                                    | Some status \<Rightarrow>
                                        Inr (Some (''proxied webhook '' @ name
                                               @ '' denied the request: '' @ Message status)))
                              else Inr None)))))"

text \<open>\<open>req.Header.Add(k, s)\<close>: the value is appended under the canonical key.\<close>

fun header_Add :: "'c library \<Rightarrow> Header \<Rightarrow> string \<Rightarrow> string \<Rightarrow> Header" where
  "header_Add lib [] k s = [(CanonicalMIMEHeaderKey lib k, [s])]"
| "header_Add lib ((k', vs) # h) k s =
     (if k' = CanonicalMIMEHeaderKey lib k then (k', vs @ [s]) # h
      else (k', vs) # header_Add lib h k s)"

text \<open>The two nested loops of \<open>doWebhook\<close> over the inbound header.\<close>

primrec add_values :: "'c library \<Rightarrow> string \<Rightarrow> string list \<Rightarrow> Header \<Rightarrow> Header" where
  "add_values lib k [] h = h"
| "add_values lib k (s # v) h = add_values lib k v (header_Add lib h k s)"

primrec copy_header :: "'c library \<Rightarrow> Header \<Rightarrow> Header \<Rightarrow> Header" where
  "copy_header lib [] h = h"
| "copy_header lib (kv # rest) h = copy_header lib rest (add_values lib (fst kv) (snd kv) h)"

text \<open>
  \<open>doWebhook\<close> up to the call: the URL, the certificate pool, the client, and the request
  with the inbound header copied. The error of \<open>http.NewRequestWithContext\<close> is dropped by
  the source, so a URL that does not parse leaves a nil request (\<open>None\<close>).
\<close>

definition doWebhook_prepare ::
  "'c library \<Rightarrow> Webhook \<Rightarrow> Request \<Rightarrow> string \<Rightarrow> 'c Client \<times> Request option" where
  "doWebhook_prepare lib wh r body =
     (let url = ''https://'' @ wget wh serviceName @ ''.'' @ wget wh namespace
                  @ '':'' @ wget wh port @ wget wh path;
          caCertPool = [] @ AppendCertsFromPEM lib (wget wh caBundle);
          client = \<lparr>RootCAs = Some caCertPool\<rparr>;
          req = (if ParseURL lib url
                 then Some \<lparr>Method = ''POST'', URL = url, Header = [], Body = body\<rparr>
                 else None)
      in (client, map_option (\<lambda>q. q\<lparr>Header := copy_header lib (Header r) (Header q)\<rparr>) req))"

text \<open>
  \<open>doWebhook\<close> for the goroutine with index \<open>i\<close>: the value it sends on \<open>errCh\<close>, or the
  panic that ends the process. With a nil request the header loop, or else \<open>client.Do\<close>,
  reads through the nil pointer. The failure policy handed to \<open>toFailure\<close> is the
  constant \<open>Fail\<close>.
\<close>

definition doWebhook ::
  "'c library \<Rightarrow> nat \<Rightarrow> Webhook \<Rightarrow> Request \<Rightarrow> string \<Rightarrow> panic + error option" where
  "doWebhook lib i wh r body =
     (case doWebhook_prepare lib wh r body of
        (client, None) \<Rightarrow> Inl NilDereference
      | (client, Some req) \<Rightarrow>
          (let (resp, err) = Do lib i client req;
               failurePolicy = Fail
           in toFailure lib ''webhook'' resp err failurePolicy))"

subsection \<open>Fan-out and merge\<close>

text \<open>
  Modelled from the spec: \<open>approved\<close> and \<open>errToAdmissionResponse\<close> are defined in a file
  of the package that is not part of the sources. By the spec the verdict is an
  \<open>AdmissionResponse\<close> with \<open>allowed\<close> and an optional message: \<open>approved\<close> is Allow, and
  \<open>errToAdmissionResponse\<close> is Deny with the error's message.
\<close>

definition approved :: AdmissionResponse where
  "approved = \<lparr>Allowed = True, Result = None\<rparr>"

definition errToAdmissionResponse :: "error \<Rightarrow> AdmissionResponse" where
  "errToAdmissionResponse err = \<lparr>Allowed = False, Result = Some \<lparr>Message = err\<rparr>\<rparr>"

text \<open>
  The goroutines run concurrently and each sends one value on the buffered channel; the
  channel delivers them in the order sent. A schedule is that order: the list of the
  goroutines' indices in the order in which they complete, a permutation of
  \<open>0, ..., n - 1\<close>.
\<close>

definition is_schedule :: "nat \<Rightarrow> nat list \<Rightarrow> bool" where
  "is_schedule n sched = (sort sched = [0..<n])"

text \<open>The first panic among the goroutines ends the process; otherwise the values sent.\<close>

primrec sent_values :: "(panic + error option) list \<Rightarrow> panic + error option list" where
  "sent_values [] = Inr []"
| "sent_values (x # xs) =
     (case x of
        Inl p \<Rightarrow> Inl p
      | Inr e \<Rightarrow> (case sent_values xs of Inl p \<Rightarrow> Inl p | Inr es \<Rightarrow> Inr (e # es)))"

text \<open>The loop \<open>for e := range errCh\<close>: the errors that are not nil, in channel order.\<close>

primrec collect_errs :: "error option list \<Rightarrow> error list" where
  "collect_errs [] = []"
| "collect_errs (e # ch) =
     (case e of None \<Rightarrow> collect_errs ch | Some err \<Rightarrow> err # collect_errs ch)"

definition checkWebhooks ::
  "'c library \<Rightarrow> nat list \<Rightarrow> Webhook list \<Rightarrow> Request \<Rightarrow> string \<Rightarrow> panic + AdmissionResponse" where
  "checkWebhooks lib sched webhooks r body =
     (if length webhooks = 0 then Inr approved
      else (case sent_values (map (\<lambda>i. doWebhook lib i (webhooks ! i) r body) sched) of
              Inl p \<Rightarrow> Inl p
            | Inr errCh \<Rightarrow>
                (let errs = collect_errs errCh
                 in if length errs = 0 then Inr approved
                    else Inr (errToAdmissionResponse (errs ! 0)))))"



subsection \<open>A concrete run of the dispatcher\<close>

text \<open>
  Two endpoints \<open>A\<close> and \<open>B\<close>, an inbound request, and a library in which both endpoints
  answer with a well-formed review that denies, each with its own message.
\<close>

definition ex_deny_A :: string where
  \<open>ex_deny_A = ''{"response":{"allowed":false,"status":{"message":"denied by A"}}}''\<close>

definition ex_deny_B :: string where
  \<open>ex_deny_B = ''{"response":{"allowed":false,"status":{"message":"denied by B"}}}''\<close>

definition ex_lib :: "string library" where
  "ex_lib =
     \<lparr>ParseURL = (\<lambda>url. True),
      AppendCertsFromPEM = (\<lambda>pem. [pem]),
      CanonicalMIMEHeaderKey = (\<lambda>k. k),
      Do = (\<lambda>i client req.
              if i = 0 then (Some \<lparr>RespBody = Some (Inr ex_deny_A)\<rparr>, None)
              else (Some \<lparr>RespBody = Some (Inr ex_deny_B)\<rparr>, None)),
      Unmarshal = (\<lambda>data.
              if data = ex_deny_A
              then Inr \<lparr>Response = Some \<lparr>Allowed = False,
                                          Result = Some \<lparr>Message = ''denied by A''\<rparr>\<rparr>\<rparr>
              else if data = ex_deny_B
              then Inr \<lparr>Response = Some \<lparr>Allowed = False,
                                          Result = Some \<lparr>Message = ''denied by B''\<rparr>\<rparr>\<rparr>
              else Inl ''unexpected end of JSON input'')\<rparr>"

definition ex_webhook_A :: Webhook where
  "ex_webhook_A = [serviceName \<mapsto> ''svc-a'', namespace \<mapsto> ''ns'', path \<mapsto> ''/validate'',
                   caBundle \<mapsto> ''PEM-A'', port \<mapsto> ''443'']"


definition ex_request :: Request where
  "ex_request = \<lparr>Method = ''POST'', URL = ''/proxy'',
                  Header = [(''Content-Type'', [''application/json'']), (''Accept'', [''a'', ''b''])],
                  Body = []\<rparr>"

text \<open>The same library with every endpoint allowing, and with every endpoint unreachable.\<close>

definition ex_allow :: string where
  \<open>ex_allow = ''{"response":{"allowed":true}}''\<close>

definition ex_lib_allow :: "string library" where
  "ex_lib_allow =
     ex_lib\<lparr>Do := (\<lambda>i client req. (Some \<lparr>RespBody = Some (Inr ex_allow)\<rparr>, None)),
            Unmarshal := (\<lambda>data.
              if data = ex_allow
              then Inr \<lparr>Response = Some \<lparr>Allowed = True, Result = None\<rparr>\<rparr>
              else Inl ''unexpected end of JSON input'')\<rparr>"


section \<open>Endpoint lookup (findWebhooks)\<close>

text \<open>
  The inbound \<open>admission/v1beta1.AdmissionRequest\<close>: its UID, the group, version and
  resource of its \<open>Resource\<close> field, and its operation.
\<close>

record AdmissionRequest =
  UID :: string
  Group :: string
  Version :: string
  Resource :: string
  Operation :: string

subsection \<open>The two standard-library functions it calls\<close>

text \<open>
  \<open>strconv.Atoi\<close> on a 64-bit platform, where \<open>int\<close> has 64 bits. \<open>parse_uint\<close> is the
  digit loop of \<open>strconv.ParseUint\<close> in base 10 over an unsigned 64-bit accumulator: a
  character that is not a digit is a syntax error, an accumulator that would overflow is
  a range error, whichever comes first. \<open>Atoi\<close> strips one sign, refuses the empty string
  and a sign alone, and refuses a magnitude that does not fit.
\<close>

definition is_digit :: "char \<Rightarrow> bool" where
  "is_digit ch = (48 \<le> (of_char ch :: nat) \<and> (of_char ch :: nat) \<le> 57)"

fun parse_uint :: "nat \<Rightarrow> char list \<Rightarrow> NumError + nat" where
  "parse_uint n [] = Inr n"
| "parse_uint n (ch # s) =
     (if \<not> is_digit ch then Inl ErrSyntax
      else if n \<ge> (2 ^ 64 - 1) div 10 + 1 then Inl ErrRange
      else if n * 10 + (of_char ch - 48) > 2 ^ 64 - 1 then Inl ErrRange
      else parse_uint (n * 10 + (of_char ch - 48)) s)"

definition Atoi :: "string \<Rightarrow> NumError + int" where
  "Atoi s =
     (if s = [] then Inl ErrSyntax
      else (let neg = (hd s = CHR ''-'');
                digits = (if hd s = CHR ''-'' \<or> hd s = CHR ''+'' then tl s else s)
            in if digits = [] then Inl ErrSyntax
               else (case parse_uint 0 digits of
                       Inl err \<Rightarrow> Inl err
                     | Inr un \<Rightarrow>
                         if \<not> neg \<and> un \<ge> 2 ^ 63 then Inl ErrRange
                         else if neg \<and> un > 2 ^ 63 then Inl ErrRange
                         else Inr (if neg then - int un else int un))))"

text \<open>
  \<open>base64.StdEncoding.DecodeString\<close>: carriage returns and line feeds are skipped; the rest
  is read four characters at a time over the standard alphabet; only the last group may
  be padded, with \<open>=\<close> or \<open>==\<close>, and nothing may follow it. \<open>None\<close> is the error.
\<close>

definition b64_index :: "char \<Rightarrow> nat option" where
  "b64_index ch =
     (let n = (of_char ch :: nat)
      in if 65 \<le> n \<and> n \<le> 90 then Some (n - 65)
         else if 97 \<le> n \<and> n \<le> 122 then Some (n - 71)
         else if 48 \<le> n \<and> n \<le> 57 then Some (n + 4)
         else if ch = CHR ''+'' then Some 62
         else if ch = CHR ''/'' then Some 63
         else None)"

fun decode_quanta :: "char list \<Rightarrow> string option" where
  "decode_quanta [] = Some []"
| "decode_quanta (a # b # c # d # rest) =
     (case (b64_index a, b64_index b) of
        (Some x, Some y) \<Rightarrow>
          if c = CHR ''='' \<and> d = CHR ''='' \<and> rest = []
          then Some [char_of (x * 4 + y div 16)]
          else (case b64_index c of
                  None \<Rightarrow> None
                | Some z \<Rightarrow>
                    if d = CHR ''='' \<and> rest = []
                    then Some [char_of (x * 4 + y div 16), char_of ((y mod 16) * 16 + z div 4)]
                    else (case (b64_index d, decode_quanta rest) of
                            (Some w, Some bytes) \<Rightarrow>
                              Some (char_of (x * 4 + y div 16)
                                    # char_of ((y mod 16) * 16 + z div 4)
                                    # char_of ((z mod 4) * 64 + w) # bytes)
                          | _ \<Rightarrow> None))
      | _ \<Rightarrow> None)"
| "decode_quanta short = None"

definition DecodeString :: "string \<Rightarrow> string option" where
  "DecodeString s = decode_quanta (filter (\<lambda>ch. ch \<noteq> CHR 0x0D \<and> ch \<noteq> CHR 0x0A) s)"

subsection \<open>findWebhooks\<close>

text \<open>
  \<open>findWebhooks\<close> reads the process environment (\<open>os.Getenv\<close>, the empty string for a
  variable that is not set) each time it is called, and panics on the first variable that
  is missing or malformed. The request is a parameter that the body never reads.
\<close>

definition findWebhooks ::
  "(string \<Rightarrow> string) \<Rightarrow> AdmissionRequest \<Rightarrow> panic + Webhook list" where
  "findWebhooks getenv request =
     (let wh0 = (Map.empty :: Webhook);
          wh1 = wh0(serviceName \<mapsto> getenv ''ADM_SERVICE_NAME'')
      in if wget wh1 serviceName = [] then Inl (Panic ''failed to read env variable ADM_SERVICE_NAME'')
      else let wh2 = wh1(namespace \<mapsto> getenv ''ADM_SERVICE_NAMESPACE'')
      in if wget wh2 namespace = []
         then Inl (Panic ''failed to read env variable ADM_SERVICE_NAMESPACE'')
      else let wh3 = wh2(path \<mapsto> getenv ''ADM_SERVICE_ENDPOINT'')
      in if wget wh3 path = [] then Inl (Panic ''failed to read env variable ADM_SERVICE_ENDPOINT'')
      else let encoded = getenv ''ADM_SERVICE_CABUNDLE''
      in if encoded = [] then Inl (Panic ''failed to read env variable ADM_SERVICE_CABUNDLE'')
      else (case DecodeString encoded of
              None \<Rightarrow> Inl (Panic ''failed to base64 decode cabundle'')
            | Some data \<Rightarrow>
                (let wh4 = wh3(caBundle \<mapsto> data);
                     wh5 = wh4(port \<mapsto> getenv ''ADM_SERVICE_PORT'')
                 in if wget wh5 port = []
                    then Inl (Panic ''failed to read env variable ADM_SERVICE_PORT'')
                    else (case Atoi (wget wh5 port) of
                            Inl err \<Rightarrow>
                              Inl (PanicError ''failed to convert port to an int: '' err)
                          | Inr n \<Rightarrow> Inr [wh5]))))"

subsection \<open>Rule matching as the specification words it\<close>

text \<open>
  The specification's endpoint resolution, for comparison with \<open>findWebhooks\<close>: every
  endpoint comes with its declared rules, a rule is a group, a version, a resource and a
  set of operations, a rule matches a request when the first three are equal to the
  request's and the request's operation is in the set, and an endpoint is selected when
  one of its rules matches.
\<close>

record spec_rule =
  rule_group :: string
  rule_version :: string
  rule_resource :: string
  rule_operations :: "string list"

definition spec_rule_matches :: "spec_rule \<Rightarrow> AdmissionRequest \<Rightarrow> bool" where
  "spec_rule_matches rule request =
     (rule_group rule = Group request \<and> rule_version rule = Version request
      \<and> rule_resource rule = Resource request \<and> Operation request \<in> set (rule_operations rule))"

definition spec_select_endpoints ::
  "(Webhook \<times> spec_rule list) list \<Rightarrow> AdmissionRequest \<Rightarrow> Webhook list" where
  "spec_select_endpoints endpoints request =
     map fst (filter (\<lambda>ep. list_ex (\<lambda>rule. spec_rule_matches rule request) (snd ep)) endpoints)"

subsection \<open>A concrete environment\<close>

definition ex_getenv :: "string \<Rightarrow> string" where
  "ex_getenv name =
     (if name = ''ADM_SERVICE_NAME'' then ''svc-a''
      else if name = ''ADM_SERVICE_NAMESPACE'' then ''ns''
      else if name = ''ADM_SERVICE_ENDPOINT'' then ''/validate''
      else if name = ''ADM_SERVICE_CABUNDLE'' then ''UEVNLUE=''
      else if name = ''ADM_SERVICE_PORT'' then ''443''
      else [])"

definition ex_admission_request :: AdmissionRequest where
  "ex_admission_request =
     \<lparr>UID = ''1'', Group = ''apps'', Version = ''v1'', Resource = ''deployments'',
      Operation = ''CREATE''\<rparr>"

section \<open>Properties of the act stage\<close>

lemma containsString_set: "containsString slice s \<longleftrightarrow> s \<in> set slice"
  by (induction slice) auto

lemma removeString_filter: "removeString slice s = filter (\<lambda>item. item \<noteq> s) slice"
  by (induction slice) auto

lemma filter_neq: "s \<in> set xs \<Longrightarrow> filter (\<lambda>item. item \<noteq> s) xs \<noteq> xs"
  by (simp add: filter_id_conv)

lemma manageWebhookConfig_eq:
  "manageWebhookConfig c state w = (c (webhook_apply state), w\<lparr>calls := calls w @ [webhook_apply state]\<rparr>)"
  by (simp add: manageWebhookConfig_def webhook_apply_def do_call_def split: option.splits)

lemma manageFinalizer_ret:
  "manageFinalizer state = (ret, state1) \<Longrightarrow>
     (ret \<longleftrightarrow> Finalizers (customResource state1) \<noteq> Finalizers (customResource state))
     \<and> Generation (customResource state1) = Generation (customResource state)
     \<and> ObservedGeneration (customResource state1) = ObservedGeneration (customResource state)
     \<and> newProxyTypeData state1 = newProxyTypeData state
     \<and> (\<not> ret \<longrightarrow> state1 = state)"
  by (cases "delete state")
     (auto simp: manageFinalizer_def containsString_set removeString_filter filter_neq
           split: if_splits)

lemma manageGeneration_ret:
  "manageGeneration state1 = (ret, state2) \<Longrightarrow>
     (ret \<longleftrightarrow> ObservedGeneration (customResource state2) \<noteq> ObservedGeneration (customResource state1))
     \<and> Finalizers (customResource state2) = Finalizers (customResource state1)
     \<and> newProxyTypeData state2 = newProxyTypeData state1
     \<and> (\<not> ret \<longrightarrow> state2 = state1)"
  by (auto simp: manageGeneration_def split: if_splits)

lemma webhook_apply_not_resource:
  "\<not> is_full_update (webhook_apply state)" "\<not> is_status_update (webhook_apply state)"
  "\<not> is_resource_write (webhook_apply state)"
  by (simp_all add: webhook_apply_def)

text \<open>The shape of every run of act.\<close>

lemma act_shape:
  assumes "act c state w = (r, state', w')"
  obtains
    (apply_failed) err where "update state" "c (webhook_apply state) = Some err"
      "r = Some err" "state' = state" "w' = w\<lparr>calls := calls w @ [webhook_apply state]\<rparr>"
  | (full) pre where "pre = (if update state then [webhook_apply state] else [])"
      "\<forall>k \<in> set pre. c k = None"
      "Finalizers (customResource state') \<noteq> Finalizers (customResource state)"
      "r = c (Update (ResourceObject (customResource state')))"
      "calls w' = calls w @ pre @ [Update (ResourceObject (customResource state'))]"
      "proxyTypeData w' = (if r = None then newProxyTypeData state else proxyTypeData w)"
  | (status) pre where "pre = (if update state then [webhook_apply state] else [])"
      "\<forall>k \<in> set pre. c k = None"
      "Finalizers (customResource state') = Finalizers (customResource state)"
      "ObservedGeneration (customResource state') \<noteq> ObservedGeneration (customResource state)"
      "r = c (StatusUpdate (ResourceObject (customResource state')))"
      "calls w' = calls w @ pre @ [StatusUpdate (ResourceObject (customResource state'))]"
      "proxyTypeData w' = (if r = None then newProxyTypeData state else proxyTypeData w)"
  | (unchanged) pre where "pre = (if update state then [webhook_apply state] else [])"
      "\<forall>k \<in> set pre. c k = None"
      "state' = state" "r = None"
      "calls w' = calls w @ pre"
      "proxyTypeData w' = newProxyTypeData state"
proof -
  obtain ret state1 where mf: "manageFinalizer state = (ret, state1)" by force
  obtain ret' state2 where mg: "manageGeneration state1 = (ret', state2)" by force
  note f = manageFinalizer_ret[OF mf] and g = manageGeneration_ret[OF mg]
  show thesis
  proof (cases "update state \<and> c (webhook_apply state) \<noteq> None")
    case True
    then obtain err where "c (webhook_apply state) = Some err" by auto
    with True assms show thesis
      by (intro apply_failed[of err]) (auto simp: act_def manageWebhookConfig_eq)
  next
    case False
    define pre where "pre = (if update state then [webhook_apply state] else [])"
    define w0 where "w0 = w\<lparr>calls := calls w @ pre\<rparr>"
    have pre_ok: "\<forall>k \<in> set pre. c k = None" using False by (auto simp: pre_def)
    have first: "(if update state then manageWebhookConfig c state w else (None, w)) = (None, w0)"
      using False by (auto simp: manageWebhookConfig_eq w0_def pre_def)
    show thesis
    proof (cases ret)
      case True
      with assms first mf mg have
        "r = c (Update (ResourceObject (customResource state2)))" "state' = state2"
        "w' = (if r = None then (w0\<lparr>calls := calls w0 @ [Update (ResourceObject (customResource state2))]\<rparr>)\<lparr>proxyTypeData := newProxyTypeData state2\<rparr>
               else w0\<lparr>calls := calls w0 @ [Update (ResourceObject (customResource state2))]\<rparr>)"
        by (auto simp: act_def do_call_def split: option.splits)
      with True f g pre_ok show thesis
        by (intro full[of pre]) (auto simp: pre_def w0_def)
    next
      case nf: False
      show thesis
      proof (cases ret')
        case True
        with nf assms first mf mg have
          "r = c (StatusUpdate (ResourceObject (customResource state2)))" "state' = state2"
          "w' = (if r = None then (w0\<lparr>calls := calls w0 @ [StatusUpdate (ResourceObject (customResource state2))]\<rparr>)\<lparr>proxyTypeData := newProxyTypeData state2\<rparr>
                 else w0\<lparr>calls := calls w0 @ [StatusUpdate (ResourceObject (customResource state2))]\<rparr>)"
          by (auto simp: act_def do_call_def split: option.splits)
        with True nf f g pre_ok show thesis
          by (intro status[of pre]) (auto simp: pre_def w0_def)
      next
        case False
        with nf assms first mf mg have
          "r = None" "state' = state2" "w' = w0\<lparr>proxyTypeData := newProxyTypeData state2\<rparr>"
          by (auto simp: act_def)
        with False nf f g pre_ok show thesis
          by (intro unchanged[of pre]) (auto simp: pre_def w0_def)
      qed
    qed
  qed
qed

subsection \<open>Claims about the act stage\<close>

text \<open>
  C6. After \<open>manageFinalizer\<close> has run on any analyzed state, the finalizer is on the custom
  resource if and only if the state is not marked for deletion; it returns true exactly
  when it changed the finalizer list; and it returns false and leaves the state as it was
  exactly when the resource was already in the correct state.
\<close>

theorem manageFinalizer_lifecycle:
  "(containsString (Finalizers (customResource (snd (manageFinalizer state)))) typeFinalizer
      \<longleftrightarrow> \<not> delete state)
   \<and> (fst (manageFinalizer state)
      \<longleftrightarrow> Finalizers (customResource (snd (manageFinalizer state)))
            \<noteq> Finalizers (customResource state))
   \<and> (manageFinalizer state = (False, state)
      \<longleftrightarrow> (containsString (Finalizers (customResource state)) typeFinalizer
            \<longleftrightarrow> \<not> delete state))"
  by (cases "delete state")
     (simp_all add: manageFinalizer_def containsString_set removeString_filter filter_neq)

theorem manageFinalizer_lifecycle_witness:
  "manageFinalizer ex_state_new
     = (True, ex_state_new\<lparr>customResource :=
          \<lparr>Finalizers = [''type.finalizer.gesher''], Generation = 2, ObservedGeneration = 1\<rparr>\<rparr>)
   \<and> manageFinalizer ex_state_deleting
     = (True, ex_state_deleting\<lparr>customResource :=
          \<lparr>Finalizers = [''other''], Generation = 2, ObservedGeneration = 2\<rparr>\<rparr>)
   \<and> manageFinalizer ex_state_settled = (False, ex_state_settled)"
  using manageFinalizer_lifecycle [of ex_state_settled]
  by (simp add: manageFinalizer_def typeFinalizer_def ex_state_new_def ex_state_deleting_def
        ex_state_settled_def)

text \<open>
  C2. When the cluster-webhook apply (create or update) fails, \<open>act\<close> returns that error
  with the analyzed state untouched (no finalizer and no status mutation), with the apply
  as the only call made, and with the package-level aggregate as it was. In every run the
  aggregate is the new snapshot exactly when \<open>act\<close> returned nil, and then every call it
  made (the webhook apply and the resource or status update, where made) had succeeded.
\<close>

theorem act_no_partial_application:
  "(update state \<and> c (webhook_apply state) = Some err \<longrightarrow>
      act c state w = (Some err, state, w\<lparr>calls := calls w @ [webhook_apply state]\<rparr>))
   \<and> (act c state w = (r, state', w') \<longrightarrow>
        proxyTypeData w' = (if r = None then newProxyTypeData state else proxyTypeData w)
        \<and> (r = None \<longrightarrow> (\<forall>k \<in> set (new_calls w w'). c k = None)))"
proof (intro conjI impI)
  assume "update state \<and> c (webhook_apply state) = Some err"
  then show "act c state w = (Some err, state, w\<lparr>calls := calls w @ [webhook_apply state]\<rparr>)"
    by (simp add: act_def manageWebhookConfig_eq)
next
  assume a: "act c state w = (r, state', w')"
  then show "proxyTypeData w' = (if r = None then newProxyTypeData state else proxyTypeData w)"
    by (cases rule: act_shape) simp_all
  assume "r = None"
  with a show "\<forall>k \<in> set (new_calls w w'). c k = None"
    by (cases rule: act_shape) (simp_all add: new_calls_def)
qed

theorem act_no_partial_application_witness:
  "update ex_state_new
   \<and> ex_client_conflict (webhook_apply ex_state_new) = Some ''conflict''
   \<and> act ex_client_conflict ex_state_new ex_world
       = (Some ''conflict'', ex_state_new, \<lparr>calls = [Create (WebhookObject ())], proxyTypeData = 0\<rparr>)
   \<and> act ex_client_ok ex_state_new ex_world
       = (None,
          ex_state_new\<lparr>customResource :=
            \<lparr>Finalizers = [''type.finalizer.gesher''], Generation = 2, ObservedGeneration = 2\<rparr>\<rparr>,
          \<lparr>calls = [Create (WebhookObject ()),
                    Update (ResourceObject
                      \<lparr>Finalizers = [''type.finalizer.gesher''], Generation = 2,
                       ObservedGeneration = 2\<rparr>)],
           proxyTypeData = newProxyTypeData ex_state_new\<rparr>)"
proof -
  have u: "update ex_state_new" "ex_client_conflict (webhook_apply ex_state_new) = Some ''conflict''"
    by (simp_all add: ex_state_new_def ex_client_conflict_def webhook_apply_def)
  have a: "webhook_apply ex_state_new = Create (WebhookObject ())"
    by (simp add: ex_state_new_def webhook_apply_def)
  have ok: "act ex_client_ok ex_state_new ex_world
       = (None,
          ex_state_new\<lparr>customResource :=
            \<lparr>Finalizers = [''type.finalizer.gesher''], Generation = 2, ObservedGeneration = 2\<rparr>\<rparr>,
          \<lparr>calls = [Create (WebhookObject ()),
                    Update (ResourceObject
                      \<lparr>Finalizers = [''type.finalizer.gesher''], Generation = 2,
                       ObservedGeneration = 2\<rparr>)],
           proxyTypeData = newProxyTypeData ex_state_new\<rparr>)"
    by (simp add: act_def manageWebhookConfig_def manageFinalizer_def manageGeneration_def
          do_call_def typeFinalizer_def ex_state_new_def ex_client_ok_def ex_world_def)
  from act_no_partial_application [of ex_state_new ex_client_conflict "''conflict''" ex_world]
       u a
  have "act ex_client_conflict ex_state_new ex_world
       = (Some ''conflict'', ex_state_new, \<lparr>calls = [Create (WebhookObject ())], proxyTypeData = 0\<rparr>)"
    by (simp add: ex_world_def)
  with u ok show ?thesis by simp
qed

text \<open>
  C7. In one invocation of \<open>act\<close>, the call log only grows, and: if the finalizer list
  changed, exactly one full-object update of the custom resource was made and no
  status-only update; if the finalizer list did not change and the observed generation
  did, exactly one status-only update and no full-object update; if the custom resource
  did not change, no write of the custom resource at all.
\<close>

theorem act_mutation_minimization:
  "act c state w = (r, state', w') \<Longrightarrow>
     calls w' = calls w @ new_calls w w'
     \<and> (Finalizers (customResource state') \<noteq> Finalizers (customResource state) \<longrightarrow>
          length (filter is_full_update (new_calls w w')) = 1
          \<and> filter is_status_update (new_calls w w') = [])
     \<and> (Finalizers (customResource state') = Finalizers (customResource state)
        \<and> ObservedGeneration (customResource state') \<noteq> ObservedGeneration (customResource state) \<longrightarrow>
          length (filter is_status_update (new_calls w w')) = 1
          \<and> filter is_full_update (new_calls w w') = [])
     \<and> (customResource state' = customResource state \<longrightarrow>
          filter is_resource_write (new_calls w w') = [])"
  by (cases rule: act_shape)
     (auto simp: new_calls_def webhook_apply_not_resource)

theorem act_mutation_minimization_witness:
  "act ex_client_ok ex_state_new ex_world
     = (None,
        ex_state_new\<lparr>customResource :=
          \<lparr>Finalizers = [''type.finalizer.gesher''], Generation = 2, ObservedGeneration = 2\<rparr>\<rparr>,
        \<lparr>calls = [Create (WebhookObject ()),
                  Update (ResourceObject
                    \<lparr>Finalizers = [''type.finalizer.gesher''], Generation = 2,
                     ObservedGeneration = 2\<rparr>)],
         proxyTypeData = 1\<rparr>)
   \<and> act ex_client_ok ex_state_changed ex_world
     = (None,
        ex_state_changed\<lparr>customResource :=
          \<lparr>Finalizers = [''type.finalizer.gesher''], Generation = 2, ObservedGeneration = 2\<rparr>\<rparr>,
        \<lparr>calls = [StatusUpdate (ResourceObject
                    \<lparr>Finalizers = [''type.finalizer.gesher''], Generation = 2,
                     ObservedGeneration = 2\<rparr>)],
         proxyTypeData = 1\<rparr>)
   \<and> act ex_client_ok ex_state_settled ex_world
     = (None, ex_state_settled, \<lparr>calls = [], proxyTypeData = 1\<rparr>)
   \<and> length (filter is_full_update
        (new_calls ex_world (snd (snd (act ex_client_ok ex_state_new ex_world))))) = 1
   \<and> length (filter is_status_update
        (new_calls ex_world (snd (snd (act ex_client_ok ex_state_changed ex_world))))) = 1
   \<and> filter is_resource_write
        (new_calls ex_world (snd (snd (act ex_client_ok ex_state_settled ex_world)))) = []"
proof -
  have run_new: "act ex_client_ok ex_state_new ex_world
     = (None,
        ex_state_new\<lparr>customResource :=
          \<lparr>Finalizers = [''type.finalizer.gesher''], Generation = 2, ObservedGeneration = 2\<rparr>\<rparr>,
        \<lparr>calls = [Create (WebhookObject ()),
                  Update (ResourceObject
                    \<lparr>Finalizers = [''type.finalizer.gesher''], Generation = 2,
                     ObservedGeneration = 2\<rparr>)],
         proxyTypeData = 1\<rparr>)"
    by (simp add: act_def manageWebhookConfig_def manageFinalizer_def manageGeneration_def
          do_call_def typeFinalizer_def ex_state_new_def ex_client_ok_def ex_world_def)
  have run_changed: "act ex_client_ok ex_state_changed ex_world
     = (None,
        ex_state_changed\<lparr>customResource :=
          \<lparr>Finalizers = [''type.finalizer.gesher''], Generation = 2, ObservedGeneration = 2\<rparr>\<rparr>,
        \<lparr>calls = [StatusUpdate (ResourceObject
                    \<lparr>Finalizers = [''type.finalizer.gesher''], Generation = 2,
                     ObservedGeneration = 2\<rparr>)],
         proxyTypeData = 1\<rparr>)"
    by (simp add: act_def manageFinalizer_def manageGeneration_def
          do_call_def typeFinalizer_def ex_state_changed_def ex_client_ok_def ex_world_def)
  have run_settled: "act ex_client_ok ex_state_settled ex_world
     = (None, ex_state_settled, \<lparr>calls = [], proxyTypeData = 1\<rparr>)"
    by (simp add: act_def manageFinalizer_def manageGeneration_def
          typeFinalizer_def ex_state_settled_def ex_client_ok_def ex_world_def)
  from act_mutation_minimization [OF run_new] act_mutation_minimization [OF run_changed]
       act_mutation_minimization [OF run_settled] run_new run_changed run_settled
  show ?thesis
    by (simp add: ex_state_new_def ex_state_changed_def)
qed

section \<open>Properties of the dispatcher\<close>

subsection \<open>Schedules, the channel and the merge\<close>

lemma is_schedule_props:
  assumes "is_schedule n sched"
  shows "set sched = {0..<n}" "distinct sched" "length sched = n"
proof -
  from assms have s: "sort sched = [0..<n]" by (simp add: is_schedule_def)
  have "set sched = set (sort sched)" by simp
  then show "set sched = {0..<n}" unfolding s by simp
  have "distinct sched = distinct (sort sched)" by simp
  then show "distinct sched" unfolding s by simp
  have "length sched = length (sort sched)" by simp
  then show "length sched = n" unfolding s by simp
qed

lemma sent_values_map_Inr: "sent_values (map Inr es) = Inr es"
  by (induction es) simp_all

lemma sent_values_Inr: "sent_values xs = Inr es \<longleftrightarrow> xs = map Inr es"
proof
  show "sent_values xs = Inr es \<Longrightarrow> xs = map Inr es"
    by (induction xs arbitrary: es) (auto split: sum.splits)
qed (simp add: sent_values_map_Inr)

lemma collect_errs_Nil: "collect_errs ch = [] \<longleftrightarrow> (\<forall>e \<in> set ch. e = None)"
  by (induction ch) (auto split: option.splits)

lemma collect_errs_first:
  "collect_errs ch = err # errs \<Longrightarrow>
     \<exists>j < length ch. ch ! j = Some err \<and> (\<forall>j' < j. ch ! j' = None)"
proof (induction ch)
  case Nil
  then show ?case by simp
next
  case (Cons e ch)
  show ?case
  proof (cases e)
    case None
    with Cons obtain j where j: "j < length ch" "ch ! j = Some err" "\<forall>j' < j. ch ! j' = None"
      by auto
    have "\<forall>j' < Suc j. (e # ch) ! j' = None"
      using j(3) None by (auto simp: nth_Cons split: nat.splits)
    with j(1,2) show ?thesis
      by (intro exI[of _ "Suc j"]) auto
  next
    case (Some a)
    with Cons.prems show ?thesis by (intro exI[of _ 0]) auto
  qed
qed

text \<open>What \<open>checkWebhooks\<close> computes once every goroutine has sent its value.\<close>

lemma checkWebhooks_sent:
  assumes "webhooks \<noteq> []"
    and "map (\<lambda>i. doWebhook lib i (webhooks ! i) r body) sched = map Inr ch"
  shows "checkWebhooks lib sched webhooks r body =
           (case collect_errs ch of [] \<Rightarrow> Inr approved
            | err # errs \<Rightarrow> Inr (errToAdmissionResponse err))"
proof -
  have "sent_values (map (\<lambda>i. doWebhook lib i (webhooks ! i) r body) sched) = Inr ch"
    using assms(2) by (simp add: sent_values_Inr)
  with assms(1) show ?thesis
    by (simp add: checkWebhooks_def Let_def split: list.splits)
qed

lemma checkWebhooks_Inr_sent:
  assumes "checkWebhooks lib sched webhooks r body = Inr resp" "webhooks \<noteq> []"
  obtains ch where "map (\<lambda>i. doWebhook lib i (webhooks ! i) r body) sched = map Inr ch"
proof -
  from assms obtain ch where
    "sent_values (map (\<lambda>i. doWebhook lib i (webhooks ! i) r body) sched) = Inr ch"
    by (auto simp: checkWebhooks_def split: sum.splits)
  then show thesis using that by (simp add: sent_values_Inr)
qed


subsection \<open>The Webhook Caller\<close>








subsection \<open>Copying the header\<close>

lemma hget_header_Add:
  "hget (header_Add lib h k s) k' =
     (if k' = CanonicalMIMEHeaderKey lib k then hget h k' @ [s] else hget h k')"
  by (induction h) (auto simp: hget_def)

lemma hget_add_values:
  "hget (add_values lib k v h) k' =
     (if k' = CanonicalMIMEHeaderKey lib k then hget h k' @ v else hget h k')"
  by (induction v arbitrary: h) (auto simp: hget_header_Add)

lemma hget_copy_header:
  "hget (copy_header lib items h) k' =
     hget h k' @ concat (map snd (filter (\<lambda>kv. CanonicalMIMEHeaderKey lib (fst kv) = k') items))"
  by (induction items arbitrary: h) (auto simp: hget_add_values)

lemma hget_distinct:
  "distinct (map fst items) \<Longrightarrow>
     concat (map snd (filter (\<lambda>kv. fst kv = k') items)) = hget items k'"
proof (induction items)
  case Nil
  then show ?case by (simp add: hget_def)
next
  case (Cons kv items)
  show ?case
  proof (cases "fst kv = k'")
    case True
    from Cons.prems have "fst kv \<notin> fst ` set items" by simp
    with True have "\<forall>x \<in> set items. fst x \<noteq> k'" by (metis imageI)
    then have "filter (\<lambda>kv. fst kv = k') items = []"
      by (simp add: filter_empty_conv)
    with True show ?thesis by (cases kv) (simp add: hget_def)
  next
    case False
    with Cons show ?thesis by (cases kv) (simp add: hget_def)
  qed
qed

subsection \<open>The concrete run\<close>



lemma ex_doWebhook_allow:
  "doWebhook ex_lib_allow i ex_webhook_A ex_request ''{}'' = Inr None"
  by (simp add: doWebhook_def doWebhook_prepare_def toFailure_def ex_lib_allow_def ex_lib_def)


lemma sched1: "is_schedule (length [w]) [0]"
  by (simp add: is_schedule_def)

subsection \<open>Claims about the dispatcher\<close>




text \<open>
  C3. For every completion order, \<open>checkWebhooks\<close> returns Allow when the endpoint list is
  empty, and returns Allow when every call's outcome is nil; whenever it returns a verdict
  that is not allowed, the outcome of at least one call was an error.
\<close>

theorem checkWebhooks_merge:
  assumes "is_schedule (length webhooks) sched"
  shows "Allowed approved
    \<and> (webhooks = [] \<longrightarrow> checkWebhooks lib sched webhooks r body = Inr approved)
    \<and> ((\<forall>i < length webhooks. doWebhook lib i (webhooks ! i) r body = Inr None) \<longrightarrow>
          checkWebhooks lib sched webhooks r body = Inr approved)
    \<and> (\<forall>resp. checkWebhooks lib sched webhooks r body = Inr resp \<and> \<not> Allowed resp \<longrightarrow>
          (\<exists>i < length webhooks. \<exists>err. doWebhook lib i (webhooks ! i) r body = Inr (Some err)))"
proof (intro conjI impI allI)
  show "Allowed approved" by (simp add: approved_def)
  show "checkWebhooks lib sched webhooks r body = Inr approved" if "webhooks = []"
    using that by (simp add: checkWebhooks_def)
  note sp = is_schedule_props[OF assms]
  show "checkWebhooks lib sched webhooks r body = Inr approved"
    if all: "\<forall>i < length webhooks. doWebhook lib i (webhooks ! i) r body = Inr None"
  proof (cases "webhooks = []")
    case True
    then show ?thesis by (simp add: checkWebhooks_def)
  next
    case False
    have "map (\<lambda>i. doWebhook lib i (webhooks ! i) r body) sched = map Inr (map (\<lambda>i. None) sched)"
      using all sp(1) by auto
    from checkWebhooks_sent[OF False this] show ?thesis
      by (simp add: collect_errs_Nil[THEN iffD2] split: list.splits)
  qed
  fix resp
  assume a: "checkWebhooks lib sched webhooks r body = Inr resp \<and> \<not> Allowed resp"
  then have ne: "webhooks \<noteq> []" by (auto simp: checkWebhooks_def approved_def)
  from a ne obtain ch where ch: "map (\<lambda>i. doWebhook lib i (webhooks ! i) r body) sched = map Inr ch"
    by (auto elim: checkWebhooks_Inr_sent)
  from checkWebhooks_sent[OF ne ch] a obtain err errs where "collect_errs ch = err # errs"
    by (auto simp: approved_def split: list.splits)
  from collect_errs_first[OF this] obtain j where j: "j < length ch" "ch ! j = Some err" by blast
  have len: "length ch = length sched" using arg_cong[OF ch, of length] by simp
  have "map (\<lambda>i. doWebhook lib i (webhooks ! i) r body) sched ! j = map Inr ch ! j"
    using ch by simp
  with j len have "doWebhook lib (sched ! j) (webhooks ! (sched ! j)) r body = Inr (Some err)"
    by simp
  moreover have "sched ! j \<in> set sched" using j(1) len by simp
  then have "sched ! j < length webhooks" using sp(1) by simp
  ultimately show "\<exists>i < length webhooks. \<exists>err. doWebhook lib i (webhooks ! i) r body = Inr (Some err)"
    by blast
qed

theorem checkWebhooks_merge_witness:
  "is_schedule (length [ex_webhook_A]) [0]
   \<and> doWebhook ex_lib_allow 0 ([ex_webhook_A] ! 0) ex_request ''{}'' = Inr None
   \<and> checkWebhooks ex_lib_allow [0] [ex_webhook_A] ex_request ''{}'' = Inr approved
   \<and> Allowed approved"
proof -
  have s: "is_schedule (length [ex_webhook_A]) [0]" by (rule sched1)
  have d: "doWebhook ex_lib_allow 0 ([ex_webhook_A] ! 0) ex_request ''{}'' = Inr None"
    by (simp add: ex_doWebhook_allow)
  then have "\<forall>i < length [ex_webhook_A].
      doWebhook ex_lib_allow i ([ex_webhook_A] ! i) ex_request ''{}'' = Inr None"
    by simp
  with checkWebhooks_merge [OF s, of ex_lib_allow ex_request "''{}''"] s d
  show ?thesis by blast
qed






text \<open>
  C8. The client \<open>doWebhook\<close> builds has a root pool that is not nil and holds exactly the
  certificates parsed from that endpoint's own \<open>ca-bundle\<close> entry. The request it builds,
  when the URL parses, has the body it was handed and carries every inbound header value
  under its canonical key, in the inbound order; when the inbound keys are canonical, as
  the keys of a parsed request are, its header has the same values under every key as the
  inbound header.
\<close>

theorem doWebhook_prepare_trust_and_forwarding:
  "RootCAs (fst (doWebhook_prepare lib wh r body)) = Some (AppendCertsFromPEM lib (wget wh caBundle))
   \<and> (\<forall>req. snd (doWebhook_prepare lib wh r body) = Some req \<longrightarrow>
        Body req = body
        \<and> (\<forall>k. hget (Header req) k =
                concat (map snd (filter (\<lambda>kv. CanonicalMIMEHeaderKey lib (fst kv) = k) (Header r))))
        \<and> (distinct (map fst (Header r))
           \<and> (\<forall>k \<in> set (map fst (Header r)). CanonicalMIMEHeaderKey lib k = k) \<longrightarrow>
             (\<forall>k. hget (Header req) k = hget (Header r) k)))
   \<and> (ParseURL lib (''https://'' @ wget wh serviceName @ ''.'' @ wget wh namespace
                      @ '':'' @ wget wh port @ wget wh path) \<longrightarrow>
        (\<exists>req. snd (doWebhook_prepare lib wh r body) = Some req))"
proof (intro conjI allI impI)
  show "RootCAs (fst (doWebhook_prepare lib wh r body)) = Some (AppendCertsFromPEM lib (wget wh caBundle))"
    by (simp add: doWebhook_prepare_def Let_def)
next
  fix req
  assume a: "snd (doWebhook_prepare lib wh r body) = Some req"
  then have req: "Body req = body" "Header req = copy_header lib (Header r) []"
    by (auto simp: doWebhook_prepare_def Let_def split: if_splits)
  show "Body req = body" by (rule req)
  show gen: "hget (Header req) k =
      concat (map snd (filter (\<lambda>kv. CanonicalMIMEHeaderKey lib (fst kv) = k) (Header r)))" for k
    by (simp add: req hget_copy_header) (simp add: hget_def)
  assume c: "distinct (map fst (Header r))
           \<and> (\<forall>k \<in> set (map fst (Header r)). CanonicalMIMEHeaderKey lib k = k)"
  fix k
  have "filter (\<lambda>kv. CanonicalMIMEHeaderKey lib (fst kv) = k) (Header r)
      = filter (\<lambda>kv. fst kv = k) (Header r)"
    using c by (intro filter_cong) auto
  with gen[of k] hget_distinct[of "Header r" k] c show "hget (Header req) k = hget (Header r) k"
    by simp
next
  assume "ParseURL lib (''https://'' @ wget wh serviceName @ ''.'' @ wget wh namespace
                      @ '':'' @ wget wh port @ wget wh path)"
  then show "\<exists>req. snd (doWebhook_prepare lib wh r body) = Some req"
    by (simp add: doWebhook_prepare_def Let_def)
qed

theorem doWebhook_prepare_trust_and_forwarding_witness:
  "ParseURL ex_lib (''https://'' @ wget ex_webhook_A serviceName @ ''.'' @ wget ex_webhook_A namespace
                      @ '':'' @ wget ex_webhook_A port @ wget ex_webhook_A path)
   \<and> distinct (map fst (Header ex_request))
   \<and> doWebhook_prepare ex_lib ex_webhook_A ex_request ''{}''
       = (\<lparr>RootCAs = Some [''PEM-A'']\<rparr>,
          Some \<lparr>Method = ''POST'', URL = ''https://svc-a.ns:443/validate'',
                Header = [(''Content-Type'', [''application/json'']), (''Accept'', [''a'', ''b''])],
                Body = ''{}''\<rparr>)"
  using doWebhook_prepare_trust_and_forwarding [of ex_lib ex_webhook_A ex_request "''{}''"]
  by (simp add: doWebhook_prepare_def ex_lib_def
        ex_webhook_A_def ex_request_def wget_def serviceName_def namespace_def port_def path_def
        caBundle_def)

section \<open>Properties of findWebhooks\<close>

lemma wget_upd: "wget (wh(k \<mapsto> v)) k' = (if k' = k then v else wget wh k')"
  by (simp add: wget_def)

lemma findWebhooks_cases:
  "findWebhooks getenv request =
     (if getenv ''ADM_SERVICE_NAME'' = []
      then Inl (Panic ''failed to read env variable ADM_SERVICE_NAME'')
      else if getenv ''ADM_SERVICE_NAMESPACE'' = []
      then Inl (Panic ''failed to read env variable ADM_SERVICE_NAMESPACE'')
      else if getenv ''ADM_SERVICE_ENDPOINT'' = []
      then Inl (Panic ''failed to read env variable ADM_SERVICE_ENDPOINT'')
      else if getenv ''ADM_SERVICE_CABUNDLE'' = []
      then Inl (Panic ''failed to read env variable ADM_SERVICE_CABUNDLE'')
      else (case DecodeString (getenv ''ADM_SERVICE_CABUNDLE'') of
              None \<Rightarrow> Inl (Panic ''failed to base64 decode cabundle'')
            | Some data \<Rightarrow>
                if getenv ''ADM_SERVICE_PORT'' = []
                then Inl (Panic ''failed to read env variable ADM_SERVICE_PORT'')
                else (case Atoi (getenv ''ADM_SERVICE_PORT'') of
                        Inl err \<Rightarrow>
                          Inl (PanicError ''failed to convert port to an int: '' err)
                      | Inr n \<Rightarrow>
                          Inr [[serviceName \<mapsto> getenv ''ADM_SERVICE_NAME'',
                                namespace \<mapsto> getenv ''ADM_SERVICE_NAMESPACE'',
                                path \<mapsto> getenv ''ADM_SERVICE_ENDPOINT'',
                                caBundle \<mapsto> data,
                                port \<mapsto> getenv ''ADM_SERVICE_PORT'']])))"
  by (simp add: findWebhooks_def Let_def wget_upd serviceName_def namespace_def path_def
        caBundle_def port_def split: option.splits sum.splits)

lemma ex_DecodeString: "DecodeString ''UEVNLUE='' = Some ''PEM-A''"
  by (simp add: DecodeString_def b64_index_def char_of_eq_iff take_bit_eq_mod)

lemma ex_Atoi: "Atoi ''443'' = Inr 443"
  by (simp add: Atoi_def is_digit_def)

lemma ex_findWebhooks: "findWebhooks ex_getenv request = Inr [ex_webhook_A]"
  by (simp add: findWebhooks_cases ex_getenv_def ex_DecodeString ex_Atoi ex_webhook_A_def)

text \<open>
  C4, as amended. \<open>findWebhooks\<close> does not match rules: its result is the same for every
  request, and when it returns, it returns exactly one endpoint, the one described by the
  \<open>ADM_SERVICE_*\<close> environment variables.
\<close>

theorem findWebhooks_request_independent:
  "findWebhooks getenv request = findWebhooks getenv request'
   \<and> (\<forall>ws. findWebhooks getenv request = Inr ws \<longrightarrow>
        (\<exists>data. DecodeString (getenv ''ADM_SERVICE_CABUNDLE'') = Some data
           \<and> ws = [[serviceName \<mapsto> getenv ''ADM_SERVICE_NAME'',
                     namespace \<mapsto> getenv ''ADM_SERVICE_NAMESPACE'',
                     path \<mapsto> getenv ''ADM_SERVICE_ENDPOINT'',
                     caBundle \<mapsto> data,
                     port \<mapsto> getenv ''ADM_SERVICE_PORT'']]))"
proof (intro conjI allI impI)
  show "findWebhooks getenv request = findWebhooks getenv request'"
    by (simp add: findWebhooks_cases)
next
  fix ws
  assume "findWebhooks getenv request = Inr ws"
  then show "\<exists>data. DecodeString (getenv ''ADM_SERVICE_CABUNDLE'') = Some data
           \<and> ws = [[serviceName \<mapsto> getenv ''ADM_SERVICE_NAME'',
                     namespace \<mapsto> getenv ''ADM_SERVICE_NAMESPACE'',
                     path \<mapsto> getenv ''ADM_SERVICE_ENDPOINT'',
                     caBundle \<mapsto> data,
                     port \<mapsto> getenv ''ADM_SERVICE_PORT'']]"
    by (auto simp: findWebhooks_cases split: if_splits option.splits sum.splits)
qed

theorem findWebhooks_request_independent_witness:
  "findWebhooks ex_getenv ex_admission_request
     = findWebhooks ex_getenv (ex_admission_request\<lparr>Resource := ''secrets'', Operation := ''DELETE''\<rparr>)
   \<and> findWebhooks ex_getenv ex_admission_request = Inr [ex_webhook_A]
   \<and> DecodeString (ex_getenv ''ADM_SERVICE_CABUNDLE'') = Some ''PEM-A''"
  using findWebhooks_request_independent
    [of ex_getenv ex_admission_request
        "ex_admission_request\<lparr>Resource := ''secrets'', Operation := ''DELETE''\<rparr>"]
  by (simp add: ex_findWebhooks) (simp add: ex_getenv_def ex_DecodeString)

text \<open>
  C4 as stated fails: rule matching selects no endpoint for this request, whether the
  endpoint declares no rules or one that does not match, and \<open>findWebhooks\<close> returns the
  endpoint.
\<close>

theorem findWebhooks_rule_matching_counterexample:
  "spec_select_endpoints [(ex_webhook_A, [])] ex_admission_request = []
   \<and> spec_select_endpoints
        [(ex_webhook_A, [\<lparr>rule_group = ''apps'', rule_version = ''v1'',
                           rule_resource = ''deployments'', rule_operations = [''DELETE'']\<rparr>])]
        ex_admission_request = []
   \<and> findWebhooks ex_getenv ex_admission_request = Inr [ex_webhook_A]"
  by (simp add: ex_findWebhooks spec_select_endpoints_def spec_rule_matches_def
        ex_admission_request_def)

text \<open>
  C5, as amended. The endpoint configuration is read and checked inside \<open>findWebhooks\<close>,
  which runs for an admission request: it panics exactly when the service name, the
  namespace, the path, the CA bundle or the port is empty, the CA bundle is not base64, or
  the port is not an integer.
\<close>

theorem findWebhooks_validation:
  "(\<exists>p. findWebhooks getenv request = Inl p) \<longleftrightarrow>
     (getenv ''ADM_SERVICE_NAME'' = [] \<or> getenv ''ADM_SERVICE_NAMESPACE'' = []
      \<or> getenv ''ADM_SERVICE_ENDPOINT'' = [] \<or> getenv ''ADM_SERVICE_CABUNDLE'' = []
      \<or> DecodeString (getenv ''ADM_SERVICE_CABUNDLE'') = None
      \<or> getenv ''ADM_SERVICE_PORT'' = [] \<or> isl (Atoi (getenv ''ADM_SERVICE_PORT'')))"
proof
  assume "\<exists>p. findWebhooks getenv request = Inl p"
  then show "getenv ''ADM_SERVICE_NAME'' = [] \<or> getenv ''ADM_SERVICE_NAMESPACE'' = []
      \<or> getenv ''ADM_SERVICE_ENDPOINT'' = [] \<or> getenv ''ADM_SERVICE_CABUNDLE'' = []
      \<or> DecodeString (getenv ''ADM_SERVICE_CABUNDLE'') = None
      \<or> getenv ''ADM_SERVICE_PORT'' = [] \<or> isl (Atoi (getenv ''ADM_SERVICE_PORT''))"
    by (auto simp: findWebhooks_cases split: if_splits option.splits sum.splits)
next
  assume "getenv ''ADM_SERVICE_NAME'' = [] \<or> getenv ''ADM_SERVICE_NAMESPACE'' = []
      \<or> getenv ''ADM_SERVICE_ENDPOINT'' = [] \<or> getenv ''ADM_SERVICE_CABUNDLE'' = []
      \<or> DecodeString (getenv ''ADM_SERVICE_CABUNDLE'') = None
      \<or> getenv ''ADM_SERVICE_PORT'' = [] \<or> isl (Atoi (getenv ''ADM_SERVICE_PORT''))"
  then show "\<exists>p. findWebhooks getenv request = Inl p"
    by (auto simp: findWebhooks_cases split: if_splits option.splits sum.splits)
qed

theorem findWebhooks_validation_witness:
  "(\<exists>p. findWebhooks (\<lambda>name. if name = ''ADM_SERVICE_CABUNDLE'' then ''not base64'' else ex_getenv name)
            ex_admission_request = Inl p)
   \<and> DecodeString ''not base64'' = None"
proof -
  have d: "DecodeString ''not base64'' = None"
    by (simp add: DecodeString_def b64_index_def)
  from findWebhooks_validation
         [of "\<lambda>name. if name = ''ADM_SERVICE_CABUNDLE'' then ''not base64'' else ex_getenv name"
             ex_admission_request]
       d
  show ?thesis by simp
qed

text \<open>
  C5 as stated fails: with an empty environment, or with a port that is not a number,
  \<open>findWebhooks\<close> panics while it handles a request.
\<close>

theorem findWebhooks_panics_during_request_counterexample:
  "findWebhooks (\<lambda>name. []) ex_admission_request
     = Inl (Panic ''failed to read env variable ADM_SERVICE_NAME'')
   \<and> findWebhooks (\<lambda>name. if name = ''ADM_SERVICE_PORT'' then ''https'' else ex_getenv name)
        ex_admission_request
     = Inl (PanicError ''failed to convert port to an int: '' ErrSyntax)"
  by (simp add: findWebhooks_cases ex_getenv_def ex_DecodeString)
     (simp add: Atoi_def is_digit_def)


end
